theory Spec2Isabelle
  imports Complex_Main
begin

section \<open>Errors\<close>

text \<open>
  Every exception the modelled code can raise is a value. The two \<open>ValueError\<close>s of the
  simulation client are told apart by their message, as are the two of the bar fetcher.
\<close>

datatype error =
    ValueError_OrderNotFound
  | ValueError_AlreadyCanceled
  | Exception_Only100Percent
  | AttributeError
  | IntegrityError
  | ValueError_UnsupportedUnit
  | ValueError_UnknownUnit
  | ZeroDivisionError
  | RecursionError
  | UpstreamError

section \<open>The order store (simulation\_trading\_db.py)\<close>

datatype OrderStatus =
    NEW | PARTIALLY_FILLED | FILLED | DONE_FOR_DAY | CANCELED | EXPIRED | REPLACED
  | PENDING_CANCEL | PENDING_REPLACE | PENDING_NEW | ACCEPTED | HELD | REJECTED

datatype OrderType = MARKET | LIMIT | STOP | STOP_LIMIT | TRAILING_STOP

datatype OrderClass = SIMPLE | BRACKET | OCO | OTO

datatype TimeInForce = DAY | GTC | OPG | CLS | IOC | FOK

datatype OrderSide = BUY | SELL

text \<open>
  One row of table \<open>orders\<close>. The record is also the in-memory \<open>Order\<close> object the client
  builds before it commits, so the columns the client may leave empty (\<open>side\<close>,
  \<open>entry_price\<close>) are options here even though the table declares them
  \<open>nullable=False\<close>; the declaration is enforced by \<open>constraints_ok\<close> at commit.
  Prices and quantities are Python floats; no arithmetic is done on them, only tests
  against \<open>None\<close> and zero, and they are reals here. The primary key is a UUID, a natural
  number here; timestamps are natural numbers.
\<close>

record Order =
  order_id :: nat
  instrument :: string
  quantity :: real
  side :: "OrderSide option"
  entry_price :: "real option"
  take_profit_price :: "real option"
  stop_loss_price :: "real option"
  order_type :: OrderType
  order_class :: OrderClass
  time_in_force :: TimeInForce
  status :: OrderStatus
  created_timestamp :: nat
  updated_timestamp :: nat

type_synonym store = "Order list"

text \<open>
  What the table refuses at commit: a null in \<open>side\<close> or \<open>entry_price\<close> (the other
  \<open>nullable=False\<close> columns always get a value from the client), and an instrument
  longer than \<open>String(20)\<close>.
\<close>

definition constraints_ok :: "Order \<Rightarrow> bool" where
  "constraints_ok r \<longleftrightarrow>
     side r \<noteq> None \<and> entry_price r \<noteq> None \<and> length (instrument r) \<le> 20"

text \<open>
  \<open>session.add(new_order); session.commit()\<close>: the insert fails with an integrity error
  when a constraint is violated or the primary key is taken, and then nothing is
  written.
\<close>

definition insert_row :: "Order \<Rightarrow> store \<Rightarrow> error + store" where
  "insert_row r st =
     (if constraints_ok r \<and> order_id r \<notin> set (map order_id st)
      then Inr (st @ [r]) else Inl IntegrityError)"

section \<open>Requests and responses\<close>

record TakeProfitRequest =
  tp_limit_price :: real

record StopLossRequest =
  sl_stop_price :: real

record OrderRequest =
  req_symbol :: string
  req_qty :: "real option"
  req_side :: "OrderSide option"
  req_type :: OrderType
  req_time_in_force :: TimeInForce
  req_order_class :: "OrderClass option"
  req_limit_price :: "real option"
  req_take_profit :: "TakeProfitRequest option"
  req_stop_loss :: "StopLossRequest option"

record ReplaceOrderRequest =
  rep_qty :: "real option"
  rep_time_in_force :: "TimeInForce option"
  rep_limit_price :: "real option"
  rep_stop_price :: "real option"

record ClosePositionRequest =
  cp_qty :: "string option"
  percentage :: "string option"

record OrderResponse =
  resp_status :: OrderStatus
  resp_id :: nat

record ModifyOrderResponse =
  mod_status :: OrderStatus
  mod_id :: nat
  mod_qty :: real
  mod_limit_price :: "real option"
  mod_stop_price :: "real option"

section \<open>The simulation trading client (simulation\_trading\_client.py)\<close>

text \<open>Python truthiness of an optional float: \<open>None\<close> and \<open>0.0\<close> are false.\<close>

definition truthy :: "real option \<Rightarrow> bool" where
  "truthy p = (case p of None \<Rightarrow> False | Some v \<Rightarrow> v \<noteq> 0)"

text \<open>\<open>_get_order_by_id\<close>: the row with the given primary key, or \<open>ValueError\<close>.\<close>

definition get_order :: "nat \<Rightarrow> store \<Rightarrow> error + Order" where
  "get_order oid st =
     (case find (\<lambda>r. order_id r = oid) st of
        None \<Rightarrow> Inl ValueError_OrderNotFound
      | Some r \<Rightarrow> Inr r)"

text \<open>
  \<open>_create_order\<close>. The two values the environment supplies are parameters: \<open>new_id\<close> is
  the UUID drawn by \<open>uuid4\<close> for the primary key and \<open>now\<close> the database clock behind the
  two timestamp defaults.
\<close>

definition create_order :: "nat \<Rightarrow> nat \<Rightarrow> OrderRequest \<Rightarrow> store \<Rightarrow> error + (Order \<times> store)" where
  "create_order new_id now order_data st =
     (let entry_price' =
            (if req_type order_data = LIMIT \<and> truthy (req_limit_price order_data)
             then req_limit_price order_data else None);
          new_order = \<lparr>
            order_id = new_id,
            instrument = req_symbol order_data,
            quantity = (case req_qty order_data of None \<Rightarrow> 0 | Some q \<Rightarrow> q),
            side = req_side order_data,
            entry_price = entry_price',
            take_profit_price = map_option tp_limit_price (req_take_profit order_data),
            stop_loss_price = map_option sl_stop_price (req_stop_loss order_data),
            order_type = req_type order_data,
            order_class = (case req_order_class order_data of None \<Rightarrow> SIMPLE | Some c \<Rightarrow> c),
            time_in_force = req_time_in_force order_data,
            status = NEW,
            created_timestamp = now,
            updated_timestamp = now \<rparr>
      in case insert_row new_order st of
           Inl e \<Rightarrow> Inl e
         | Inr st' \<Rightarrow> Inr (new_order, st'))"

text \<open>
  \<open>_prepare_new_order_request\<close>. \<open>LimitOrderRequest\<close> fixes the type of the request it
  builds to \<open>LIMIT\<close>, whatever \<open>type\<close> argument it is given.
\<close>

definition prepare_new_order_request :: "Order \<Rightarrow> ReplaceOrderRequest \<Rightarrow> OrderRequest" where
  "prepare_new_order_request existing_order new_order_data = \<lparr>
     req_symbol = instrument existing_order,
     req_qty = Some (case rep_qty new_order_data of Some q \<Rightarrow> q | None \<Rightarrow> quantity existing_order),
     req_side = side existing_order,
     req_type = LIMIT,
     req_time_in_force =
       (case rep_time_in_force new_order_data of Some t \<Rightarrow> t | None \<Rightarrow> time_in_force existing_order),
     req_order_class = Some (order_class existing_order),
     req_limit_price =
       (case rep_limit_price new_order_data of Some p \<Rightarrow> Some p | None \<Rightarrow> entry_price existing_order),
     req_take_profit =
       (if truthy (take_profit_price existing_order)
        then map_option (\<lambda>p. \<lparr>tp_limit_price = p\<rparr>) (take_profit_price existing_order) else None),
     req_stop_loss =
       (if truthy (rep_stop_price new_order_data)
        then map_option (\<lambda>p. \<lparr>sl_stop_price = p\<rparr>) (rep_stop_price new_order_data) else None) \<rparr>"

text \<open>
  The public operations return their result together with the store they leave. An
  exception leaves the session without a commit, so the store of an error result is the
  store the operation started from.
\<close>

definition submit_order :: "nat \<Rightarrow> nat \<Rightarrow> OrderRequest \<Rightarrow> store \<Rightarrow> (error + OrderResponse) \<times> store" where
  "submit_order new_id now order_data st =
     (case create_order new_id now order_data st of
        Inl e \<Rightarrow> (Inl e, st)
      | Inr (new_order, st') \<Rightarrow>
          (Inr \<lparr>resp_status = status new_order, resp_id = order_id new_order\<rparr>, st'))"

definition get_order_by_id :: "nat \<Rightarrow> store \<Rightarrow> (error + OrderResponse) \<times> store" where
  "get_order_by_id oid st =
     (case get_order oid st of
        Inl e \<Rightarrow> (Inl e, st)
      | Inr r \<Rightarrow> (Inr \<lparr>resp_status = status r, resp_id = order_id r\<rparr>, st))"

text \<open>The UPDATE a commit issues for one modified object: by primary key.\<close>

definition update_row :: "nat \<Rightarrow> (Order \<Rightarrow> Order) \<Rightarrow> store \<Rightarrow> store" where
  "update_row oid f st = map (\<lambda>r. if order_id r = oid then f r else r) st"

definition cancel_order_by_id :: "nat \<Rightarrow> nat \<Rightarrow> store \<Rightarrow> (error + OrderResponse) \<times> store" where
  "cancel_order_by_id now oid st =
     (case get_order oid st of
        Inl e \<Rightarrow> (Inl e, st)
      | Inr r \<Rightarrow>
          (Inr \<lparr>resp_status = CANCELED, resp_id = order_id r\<rparr>,
           update_row oid (\<lambda>r. r\<lparr>status := CANCELED, updated_timestamp := now\<rparr>) st))"

definition replace_order_by_id ::
  "nat \<Rightarrow> nat \<Rightarrow> nat \<Rightarrow> ReplaceOrderRequest \<Rightarrow> store \<Rightarrow> (error + ModifyOrderResponse) \<times> store" where
  "replace_order_by_id new_id now oid new_order_data st =
     (case get_order oid st of
        Inl e \<Rightarrow> (Inl e, st)
      | Inr existing_order \<Rightarrow>
          if status existing_order = CANCELED then (Inl ValueError_AlreadyCanceled, st)
          else
            let existing_order' = existing_order\<lparr>status := CANCELED, updated_timestamp := now\<rparr>;
                new_order_request = prepare_new_order_request existing_order' new_order_data
            in case create_order new_id now new_order_request
                      (update_row oid (\<lambda>_. existing_order') st) of
                 Inl e \<Rightarrow> (Inl e, st)
               | Inr (new_order, st') \<Rightarrow>
                   (Inr \<lparr>mod_status = status new_order,
                         mod_id = order_id new_order,
                         mod_qty = quantity new_order,
                         mod_limit_price =
                           (if truthy (entry_price new_order) then entry_price new_order else None),
                         mod_stop_price =
                           (if truthy (stop_loss_price new_order) then stop_loss_price new_order else None)\<rparr>,
                    st'))"

text \<open>
  \<open>close_position\<close>. \<open>close_options\<close> defaults to \<open>None\<close>, and reading \<open>.percentage\<close> of
  \<open>None\<close> is an \<open>AttributeError\<close>. \<open>validate_symbol_or_asset_id\<close> returns a symbol string
  as it is. The bulk UPDATE touches the rows that are \<open>NEW\<close> and of the instrument.
\<close>

definition close_position ::
  "nat \<Rightarrow> string \<Rightarrow> ClosePositionRequest option \<Rightarrow> store \<Rightarrow> (error + unit) \<times> store" where
  "close_position now symbol_or_asset_id close_options st =
     (case close_options of
        None \<Rightarrow> (Inl AttributeError, st)
      | Some opts \<Rightarrow>
          if percentage opts = None \<or> percentage opts = Some [] \<or> percentage opts \<noteq> Some ''100''
          then (Inl Exception_Only100Percent, st)
          else (Inr (),
                map (\<lambda>r. if status r = NEW \<and> instrument r = symbol_or_asset_id
                         then r\<lparr>status := FILLED, updated_timestamp := now\<rparr> else r) st))"


subsection \<open>A small store for the examples\<close>

definition example_order :: Order where
  "example_order = \<lparr>
     order_id = 1, instrument = ''AAPL'', quantity = 10, side = Some BUY,
     entry_price = Some 150, take_profit_price = None, stop_loss_price = None,
     order_type = LIMIT, order_class = SIMPLE, time_in_force = DAY, status = NEW,
     created_timestamp = 0, updated_timestamp = 0 \<rparr>"

definition example_canceled :: Order where
  "example_canceled = example_order\<lparr>order_id := 2, status := CANCELED\<rparr>"

definition example_other :: Order where
  "example_other = example_order\<lparr>order_id := 3, instrument := ''MSFT''\<rparr>"

definition example_store :: store where
  "example_store = [example_order, example_canceled, example_other]"

definition example_market_request :: OrderRequest where
  "example_market_request = \<lparr>
     req_symbol = ''AAPL'', req_qty = Some 1, req_side = Some BUY, req_type = MARKET,
     req_time_in_force = DAY, req_order_class = None, req_limit_price = None,
     req_take_profit = None, req_stop_loss = None \<rparr>"

definition example_replace :: "real \<Rightarrow> ReplaceOrderRequest" where
  "example_replace p = \<lparr>
     rep_qty = None, rep_time_in_force = None, rep_limit_price = Some p, rep_stop_price = None \<rparr>"

definition example_close :: "string \<Rightarrow> ClosePositionRequest" where
  "example_close p = \<lparr>cp_qty = None, percentage = Some p\<rparr>"

section \<open>The bar fetcher (market\_data.py)\<close>

text \<open>\<open>str.upper\<close> on the ASCII letters, which is all the unit names consist of.\<close>

definition upper_char :: "char \<Rightarrow> char" where
  "upper_char c =
     (case map_of (zip ''abcdefghijklmnopqrstuvwxyz'' ''ABCDEFGHIJKLMNOPQRSTUVWXYZ'') c of
        None \<Rightarrow> c
      | Some u \<Rightarrow> u)"

definition upper :: "string \<Rightarrow> string" where
  "upper s = map upper_char s"

datatype TimeFrameUnit = Minute | Hour | Day | Week | Month

record TimeFrame =
  tf_amount :: int
  tf_unit :: TimeFrameUnit

text \<open>
  \<open>get_timeframe\<close>. The \<open>TimeFrame\<close> constructor belongs to the SDK; the range checks it makes
  on the amount are not part of the model.
\<close>

definition get_timeframe :: "string \<Rightarrow> int \<Rightarrow> error + TimeFrame" where
  "get_timeframe unit bar_size =
     (let unit = upper unit in
      if unit = ''MINUTE'' then
        (if bar_size \<le> 59 then Inr \<lparr>tf_amount = bar_size, tf_unit = Minute\<rparr>
         else Inr \<lparr>tf_amount = bar_size div 60, tf_unit = Hour\<rparr>)
      else if unit = ''HOUR'' then Inr \<lparr>tf_amount = bar_size, tf_unit = Hour\<rparr>
      else if unit = ''DAILY'' then Inr \<lparr>tf_amount = bar_size, tf_unit = Day\<rparr>
      else if unit = ''WEEKLY'' then Inr \<lparr>tf_amount = bar_size, tf_unit = Week\<rparr>
      else if unit = ''MONTHLY'' then Inr \<lparr>tf_amount = bar_size, tf_unit = Month\<rparr>
      else Inl ValueError_UnsupportedUnit)"

text \<open>Python's \<open>//\<close> on integers: floor division, an error when the divisor is zero.\<close>

definition floordiv :: "int \<Rightarrow> int \<Rightarrow> error + int" where
  "floordiv a b = (if b = 0 then Inl ZeroDivisionError else Inr (a div b))"

definition default_bars_back :: "string \<Rightarrow> int \<Rightarrow> error + int" where
  "default_bars_back unit bar_size =
     (let unit = upper unit in
      if unit = ''MINUTE'' \<and> bar_size < 5 then floordiv 120 bar_size
      else if unit = ''MINUTE'' \<and> bar_size < 15 then floordiv (60 * 7) bar_size
      else if unit = ''MINUTE'' \<and> bar_size < 30 then floordiv (60 * 13) bar_size
      else if unit = ''HOUR'' then floordiv (5 * 24) bar_size
      else if unit = ''DAILY'' then floordiv 30 bar_size
      else if unit = ''WEEKLY'' then floordiv 26 bar_size
      else if unit = ''MONTHLY'' then floordiv 12 bar_size
      else Inl ValueError_UnknownUnit)"

text \<open>
  The index of the bars is a naive US/Eastern timestamp. It is a number of seconds here,
  counted from midnight of some Monday, and \<open>dayofweek\<close> (Monday is 0), \<open>hour\<close> and
  \<open>minute\<close> are the fields pandas derives from it.
\<close>

definition dayofweek :: "nat \<Rightarrow> nat" where
  "dayofweek t = (t div 86400) mod 7"

definition hour :: "nat \<Rightarrow> nat" where
  "hour t = (t div 3600) mod 24"

definition minute :: "nat \<Rightarrow> nat" where
  "minute t = (t div 60) mod 60"

text \<open>
  The outside-hours filter of \<open>get_alpaca_bars\<close>: the row mask, on one timestamp.
\<close>

definition regular_hours :: "nat \<Rightarrow> bool" where
  "regular_hours t \<longleftrightarrow>
     dayofweek t < 5 \<and>
     ((hour t = 9 \<and> minute t \<ge> 30) \<or>
      (hour t > 9 \<and> hour t < 16) \<or>
      (hour t = 16 \<and> minute t = 0))"

text \<open>
  The regular session in the words of the specification: a weekday, from 09:30:00 to
  16:00:00, both ends included.
\<close>

definition in_session :: "nat \<Rightarrow> bool" where
  "in_session t \<longleftrightarrow>
     dayofweek t < 5 \<and> 9 * 3600 + 30 * 60 \<le> t mod 86400 \<and> t mod 86400 \<le> 16 * 3600"

text \<open>
  The start of the fetch window is \<open>now - interval * (bars_back + 10)\<close>, where the interval
  is a pandas offset of business hours (09:30 to 16:00) or business days. The calendar
  arithmetic is pandas's; the model keeps the offset and the multiplier.
\<close>

datatype lookback = BusinessHour int int | BDay int int

function bars_back_to_datetime :: "string \<Rightarrow> int \<Rightarrow> int \<Rightarrow> error + lookback" where
  "bars_back_to_datetime unit bar_size bars_back =
     (if unit = ''Minute'' then
        (let total_minutes = bars_back * bar_size;
             hours = total_minutes div 60 + 1
         in bars_back_to_datetime ''Hour'' 1 hours)
      else if unit = ''Hour'' then Inr (BusinessHour bar_size (bars_back + 10))
      else if unit = ''Daily'' then Inr (BDay bar_size (bars_back + 10))
      else if unit = ''Weekly'' then Inr (BDay (5 * bar_size) (bars_back + 10))
      else if unit = ''Monthly'' then Inr (BDay (21 * bar_size) (bars_back + 10))
      else Inl ValueError_UnknownUnit)"
  by pat_completeness auto
termination
  by (relation "measure (\<lambda>(unit, bar_size, bars_back). if unit = ''Minute'' then 1 else 0)") auto

declare bars_back_to_datetime.simps [simp del]

record Bar =
  timestamp :: nat
  close :: real

record StockBarsRequest =
  symbol_or_symbols :: string
  timeframe :: TimeFrame
  start :: lookback

text \<open>
  The collaborators of \<open>get_alpaca_bars\<close> that are not part of the repository: the market
  data client and the warm-up length of an indicator.
\<close>

record env =
  get_stock_bars :: "StockBarsRequest \<Rightarrow> error + Bar list"
  indicator_min_bars_back :: "string \<Rightarrow> int"

fun split_on :: "char \<Rightarrow> string \<Rightarrow> string list" where
  "split_on c [] = [[]]"
| "split_on c (x # xs) =
     (if x = c then [] # split_on c xs
      else (case split_on c xs of [] \<Rightarrow> [[x]] | p # ps \<Rightarrow> (x # p) # ps))"

text \<open>\<open>max(indicator_min_bars_back(i) for i in indicators.split(","))\<close>\<close>

definition max_min_bars_back :: "env \<Rightarrow> string \<Rightarrow> int" where
  "max_min_bars_back e indicators =
     (case map (indicator_min_bars_back e) (split_on CHR '','' indicators) of
        [] \<Rightarrow> 0
      | m # ms \<Rightarrow> fold max ms m)"

text \<open>
  \<open>int(bars_back * 3.7)\<close>: the product is truncated toward zero. The float product is
  taken as the exact one, which it equals after truncation for every count below
  \<open>10^14\<close>.
\<close>

definition int_times_3_7 :: "int \<Rightarrow> int" where
  "int_times_3_7 b = (if 0 \<le> b then (37 * b) div 10 else - ((37 * (- b)) div 10))"

text \<open>\<open>df.iloc[k:]\<close>: a negative \<open>k\<close> counts from the end.\<close>

definition iloc_from :: "int \<Rightarrow> 'a list \<Rightarrow> 'a list" where
  "iloc_from k xs = (if 0 \<le> k then drop (nat k) xs else drop (nat (int (length xs) + k)) xs)"

datatype event = Fetched StockBarsRequest | Info_retrying | Warning_could_not_get

text \<open>
  \<open>get_alpaca_bars\<close> calls itself for the retry. The first argument is the depth of
  recursion the interpreter still allows; at depth 0 the call is a \<open>RecursionError\<close>. The
  result is the trace of upstream requests and log messages, and the table returned or
  the exception raised. The table is the rows; formatting the timestamps, rounding the
  float columns and the CSV text are left out, and adding indicator columns does not
  change the rows.
\<close>

fun get_alpaca_bars ::
  "nat \<Rightarrow> env \<Rightarrow> string \<Rightarrow> string \<Rightarrow> int \<Rightarrow> int \<Rightarrow> string \<Rightarrow> bool \<Rightarrow> bool
   \<Rightarrow> event list \<times> (error + Bar list)" where
  "get_alpaca_bars 0 e symbol unit bars_back bar_size indicators truncate_bars include_outside_hours =
     ([], Inl RecursionError)"
| "get_alpaca_bars (Suc depth) e symbol unit bars_back bar_size indicators truncate_bars include_outside_hours =
     (case get_timeframe unit bar_size of
        Inl err \<Rightarrow> ([], Inl err)
      | Inr timeframe' \<Rightarrow>
     (case (if bars_back \<noteq> 0 then Inr bars_back else default_bars_back unit bar_size) of
        Inl err \<Rightarrow> ([], Inl err)
      | Inr original_bars_back \<Rightarrow>
     (let bars_back' =
            (if indicators \<noteq> [] then max_min_bars_back e indicators + bars_back
             else original_bars_back);
          filtering =
            (\<not> include_outside_hours \<and> (upper unit = ''MINUTE'' \<or> upper unit = ''HOUR''));
          adjusted_bars_back =
            (if filtering
             then (if upper unit = ''MINUTE'' then int_times_3_7 bars_back' else bars_back' * 4)
             else bars_back')
      in
     (case bars_back_to_datetime unit bar_size adjusted_bars_back of
        Inl err \<Rightarrow> ([], Inl err)
      | Inr start' \<Rightarrow>
     (let request =
            \<lparr>symbol_or_symbols = symbol, timeframe = timeframe', start = start'\<rparr>
      in
     (case get_stock_bars e request of
        Inl err \<Rightarrow> ([Fetched request], Inl err)
      | Inr raw \<Rightarrow>
     (let bars_df = (if filtering then filter (\<lambda>b. regular_hours (timestamp b)) raw else raw);
          result =
            (if truncate_bars
             then (if int (length bars_df) \<ge> original_bars_back
                   then iloc_from (- original_bars_back) bars_df else bars_df)
             else bars_df)
      in
        if filtering \<and> int (length bars_df) < original_bars_back then
          (if adjusted_bars_back \<le> bars_back' * 4 then
             (case get_alpaca_bars depth e symbol unit (original_bars_back * 10) bar_size
                     indicators truncate_bars include_outside_hours of
                (trace, r) \<Rightarrow> (Fetched request # Info_retrying # trace, r))
           else ([Fetched request, Warning_could_not_get], Inr result))
        else ([Fetched request], Inr result))))))))"

declare get_alpaca_bars.simps [simp del]

subsection \<open>Two upstream data sets for the examples\<close>

text \<open>
  \<open>retries\<close> counts the retry messages of a trace. \<open>thin_env\<close> is a symbol with only three
  bars in its whole history (a Monday, 10:00 to 10:02), whatever window is asked for;
  \<open>mixed_env\<close> returns bars at 09:29, 09:30, 16:00 and 16:01 of a Monday and at 10:00 of a
  Saturday.
\<close>

definition retries :: "event list \<Rightarrow> nat" where
  "retries trace = length (filter (\<lambda>ev. ev = Info_retrying) trace)"

definition three_bars :: "Bar list" where
  "three_bars =
     [\<lparr>timestamp = 36000, close = 10\<rparr>, \<lparr>timestamp = 36060, close = 11\<rparr>,
      \<lparr>timestamp = 36120, close = 12\<rparr>]"

definition thin_env :: env where
  "thin_env = \<lparr>get_stock_bars = (\<lambda>_. Inr three_bars), indicator_min_bars_back = (\<lambda>_. 0)\<rparr>"

definition mixed_bars :: "Bar list" where
  "mixed_bars =
     [\<lparr>timestamp = 34140, close = 9\<rparr>, \<lparr>timestamp = 34200, close = 10\<rparr>,
      \<lparr>timestamp = 57600, close = 11\<rparr>, \<lparr>timestamp = 57660, close = 12\<rparr>,
      \<lparr>timestamp = 468000, close = 13\<rparr>]"

definition mixed_env :: env where
  "mixed_env = \<lparr>get_stock_bars = (\<lambda>_. Inr mixed_bars), indicator_min_bars_back = (\<lambda>_. 0)\<rparr>"

section \<open>Properties of the order store\<close>


subsection \<open>Lookups after an update\<close>

lemma find_update_row:
  assumes "\<And>r. order_id (f r) = order_id r"
  shows "find (\<lambda>r. order_id r = oid) (update_row oid f st) = map_option f (find (\<lambda>r. order_id r = oid) st)"
  using assms by (induction st) (auto simp: update_row_def)

lemma find_update_row_other:
  assumes "\<And>r. order_id (f r) = order_id r" "oid' \<noteq> oid"
  shows "find (\<lambda>r. order_id r = oid') (update_row oid f st) = find (\<lambda>r. order_id r = oid') st"
  using assms by (induction st) (auto simp: update_row_def)

lemma ids_update_row:
  assumes "\<And>r. order_id r = oid \<Longrightarrow> order_id (f r) = oid"
  shows "map order_id (update_row oid f st) = map order_id st"
  using assms by (induction st) (auto simp: update_row_def)


lemma get_order_id: "get_order oid st = Inr r \<Longrightarrow> order_id r = oid"
  by (auto simp: get_order_def find_Some_iff split: option.splits)












subsection \<open>Submitting\<close>

lemma create_order_non_limit:
  "req_type d \<noteq> LIMIT \<Longrightarrow> create_order new_id now d st = Inl IntegrityError"
  by (simp add: create_order_def insert_row_def constraints_ok_def Let_def)

text \<open>
  Claim C2. The claim says that an order of any type other than \<open>LIMIT\<close> is persisted
  with a null entry price. The client does build such a row, but column \<open>entry_price\<close> is
  declared \<open>nullable=False\<close>: the commit is refused with an integrity error and the store
  is left as it was. This theorem states what the code does with every request that is
  not a limit order.
\<close>

theorem submit_non_limit_rejected:
  "req_type d \<noteq> LIMIT \<Longrightarrow> submit_order new_id now d st = (Inl IntegrityError, st)"
  by (simp add: submit_order_def create_order_def insert_row_def constraints_ok_def Let_def)

theorem submit_non_limit_rejected_witness:
  "req_type example_market_request \<noteq> LIMIT \<and>
   submit_order 7 9 example_market_request example_store = (Inl IntegrityError, example_store)"
proof -
  have h: "req_type example_market_request \<noteq> LIMIT"
    by (simp add: example_market_request_def)
  show ?thesis using h submit_non_limit_rejected [OF h] by simp
qed

text \<open>
  The limit orders the claim also speaks of are persisted with their price, provided the
  price is not zero (a zero price is false in Python and becomes a null entry price).
\<close>

lemma submit_limit_persists:
  assumes "req_type d = LIMIT" "req_limit_price d = Some p" "p \<noteq> 0"
    "req_side d \<noteq> None" "length (req_symbol d) \<le> 20" "new_id \<notin> set (map order_id st)"
  shows "\<exists>r. submit_order new_id now d st = (Inr \<lparr>resp_status = NEW, resp_id = new_id\<rparr>, st @ [r]) \<and>
             entry_price r = Some p \<and> order_id r = new_id \<and> status r = NEW"
  using assms
  by (simp add: submit_order_def create_order_def insert_row_def constraints_ok_def Let_def truthy_def)

subsection \<open>Replacing\<close>




text \<open>
  Claim C4. Replacing an order whose status is \<open>CANCELED\<close> fails with the
  already-canceled error and leaves the store as it was, so no row is created and the
  stored order is unchanged. In particular this is what happens to any stored order
  after \<open>cancel_order_by_id\<close>.
\<close>

theorem replace_canceled_fails:
  assumes "get_order oid st = Inr r"
  shows "(status r = CANCELED \<longrightarrow>
            replace_order_by_id new_id now oid d st = (Inl ValueError_AlreadyCanceled, st)) \<and>
         replace_order_by_id new_id now' oid d (snd (cancel_order_by_id now oid st)) =
           (Inl ValueError_AlreadyCanceled, snd (cancel_order_by_id now oid st))"
proof -
  have f: "find (\<lambda>r. order_id r = oid) st = Some r"
    using assms(1) by (simp add: get_order_def split: option.splits)
  show ?thesis
    using assms f
    by (simp add: replace_order_by_id_def cancel_order_by_id_def get_order_def find_update_row)
qed

theorem replace_canceled_fails_witness:
  "get_order 2 example_store = Inr example_canceled \<and>
   replace_order_by_id 7 9 2 (example_replace 155) example_store =
     (Inl ValueError_AlreadyCanceled, example_store) \<and>
   get_order 1 example_store = Inr example_order \<and>
   replace_order_by_id 7 9 1 (example_replace 155) (snd (cancel_order_by_id 8 1 example_store)) =
     (Inl ValueError_AlreadyCanceled, snd (cancel_order_by_id 8 1 example_store))"
proof -
  have g: "get_order 2 example_store = Inr example_canceled"
    by (simp add: get_order_def example_store_def example_order_def example_canceled_def)
  have s: "status example_canceled = CANCELED"
    by (simp add: example_canceled_def)
  have g1: "get_order 1 example_store = Inr example_order"
    by (simp add: get_order_def example_store_def example_order_def)
  show ?thesis
    using g s g1 replace_canceled_fails [OF g, where new_id = 7 and now = 9]
      replace_canceled_fails [OF g1, where new_id = 7 and now = 8]
    by simp
qed

subsection \<open>Canceling\<close>

text \<open>
  Claim C9. Canceling an order that is already \<open>CANCELED\<close> succeeds: the response
  reports \<open>CANCELED\<close>, the row keeps its status and gets the new update timestamp, and
  no other row is touched. There is no guard on the status, unlike in replace.
\<close>

theorem cancel_canceled_succeeds:
  assumes "get_order oid st = Inr r" and "status r = CANCELED"
  shows "fst (cancel_order_by_id now oid st) = Inr \<lparr>resp_status = CANCELED, resp_id = oid\<rparr> \<and>
         get_order oid (snd (cancel_order_by_id now oid st)) = Inr (r\<lparr>updated_timestamp := now\<rparr>) \<and>
         map order_id (snd (cancel_order_by_id now oid st)) = map order_id st \<and>
         (\<forall>oid'. oid' \<noteq> oid \<longrightarrow>
            get_order oid' (snd (cancel_order_by_id now oid st)) = get_order oid' st)"
proof -
  have id: "order_id r = oid" using assms(1) by (rule get_order_id)
  have f: "find (\<lambda>r. order_id r = oid) st = Some r"
    using assms(1) by (simp add: get_order_def split: option.splits)
  have eq: "r\<lparr>status := CANCELED, updated_timestamp := now\<rparr> = r\<lparr>updated_timestamp := now\<rparr>"
    using assms(2) by simp
  show ?thesis
    using assms id f eq
    by (simp add: cancel_order_by_id_def get_order_def find_update_row find_update_row_other ids_update_row)
qed

theorem cancel_canceled_succeeds_witness:
  "get_order 2 example_store = Inr example_canceled \<and> status example_canceled = CANCELED \<and>
   fst (cancel_order_by_id 9 2 example_store) = Inr \<lparr>resp_status = CANCELED, resp_id = 2\<rparr> \<and>
   get_order 2 (snd (cancel_order_by_id 9 2 example_store)) =
     Inr (example_canceled\<lparr>updated_timestamp := 9\<rparr>)"
proof -
  have g: "get_order 2 example_store = Inr example_canceled"
    by (simp add: get_order_def example_store_def example_order_def example_canceled_def)
  have s: "status example_canceled = CANCELED"
    by (simp add: example_canceled_def)
  show ?thesis using g s cancel_canceled_succeeds [OF g s, of 9] by simp
qed

subsection \<open>Closing a position\<close>

text \<open>
  Claim C5. With percentage \<open>"100"\<close>, \<open>close_position\<close> succeeds and changes exactly the
  rows that are \<open>NEW\<close> and of the given instrument: their status becomes \<open>FILLED\<close> and
  their update timestamp the time of the call. Every other row, whatever its status or
  instrument, is the same in all its fields.
\<close>

theorem close_position_100:
  assumes "percentage opts = Some ''100''"
  shows "fst (close_position now symb (Some opts) st) = Inr () \<and>
         length (snd (close_position now symb (Some opts) st)) = length st \<and>
         (\<forall>i<length st.
            snd (close_position now symb (Some opts) st) ! i =
              (if status (st ! i) = NEW \<and> instrument (st ! i) = symb
               then (st ! i)\<lparr>status := FILLED, updated_timestamp := now\<rparr>
               else st ! i))"
  using assms by (simp add: close_position_def)

theorem close_position_100_witness:
  "percentage (example_close ''100'') = Some ''100'' \<and>
   fst (close_position 9 ''AAPL'' (Some (example_close ''100'')) example_store) = Inr () \<and>
   snd (close_position 9 ''AAPL'' (Some (example_close ''100'')) example_store) ! 0 =
     example_order\<lparr>status := FILLED, updated_timestamp := 9\<rparr> \<and>
   snd (close_position 9 ''AAPL'' (Some (example_close ''100'')) example_store) ! 1 = example_canceled \<and>
   snd (close_position 9 ''AAPL'' (Some (example_close ''100'')) example_store) ! 2 = example_other"
proof -
  have h: "percentage (example_close ''100'') = Some ''100''"
    by (simp add: example_close_def)
  have l: "length example_store = 3" by (simp add: example_store_def)
  have c: "\<forall>i<3.
            snd (close_position 9 ''AAPL'' (Some (example_close ''100'')) example_store) ! i =
              (if status (example_store ! i) = NEW \<and> instrument (example_store ! i) = ''AAPL''
               then (example_store ! i)\<lparr>status := FILLED, updated_timestamp := 9\<rparr>
               else example_store ! i)"
    and f: "fst (close_position 9 ''AAPL'' (Some (example_close ''100'')) example_store) = Inr ()"
    using close_position_100 [OF h, of 9 "''AAPL''" example_store] l by simp_all
  have c0: "snd (close_position 9 ''AAPL'' (Some (example_close ''100'')) example_store) ! 0 =
     example_order\<lparr>status := FILLED, updated_timestamp := 9\<rparr>"
    using c [rule_format, of 0]
    by (simp add: example_store_def example_order_def)
  have c1: "snd (close_position 9 ''AAPL'' (Some (example_close ''100'')) example_store) ! 1 =
     example_canceled"
    using c [rule_format, of 1]
    by (simp add: example_store_def example_order_def example_canceled_def)
  have c2: "snd (close_position 9 ''AAPL'' (Some (example_close ''100'')) example_store) ! 2 =
     example_other"
    using c [rule_format, of 2]
    by (simp add: example_store_def example_order_def example_other_def)
  show ?thesis using h f c0 c1 c2 by simp
qed

text \<open>
  Claim C6. A request whose percentage is anything but the string \<open>"100"\<close> (absent,
  empty, or any other string) fails with the only-100-percent error whatever the store
  holds, and the store is left as it was.
\<close>

theorem close_position_not_100:
  "percentage opts \<noteq> Some ''100'' \<Longrightarrow>
   close_position now symb (Some opts) st = (Inl Exception_Only100Percent, st)"
  by (simp add: close_position_def)

theorem close_position_not_100_witness:
  "percentage (example_close ''50'') \<noteq> Some ''100'' \<and>
   close_position 9 ''AAPL'' (Some (example_close ''50'')) example_store =
     (Inl Exception_Only100Percent, example_store)"
proof -
  have h: "percentage (example_close ''50'') \<noteq> Some ''100''"
    by (simp add: example_close_def)
  show ?thesis using h close_position_not_100 [OF h] by simp
qed

text \<open>
  Claim C10. Called with \<open>close_options = None\<close>, the default, \<open>close_position\<close> fails
  with the attribute error of reading \<open>.percentage\<close> of \<open>None\<close>, not with the
  only-100-percent error, and the store is left as it was.
\<close>

theorem close_position_none:
  "close_position now symb None st = (Inl AttributeError, st)"
  by (simp add: close_position_def)

section \<open>Properties of the bar fetcher\<close>

subsection \<open>Units and default counts\<close>

lemma upper_Minute: "upper ''Minute'' = ''MINUTE''"
  by (simp add: upper_def upper_char_def)


lemma upper_units:
  "upper ''Hour'' = ''HOUR''" "upper ''Daily'' = ''DAILY''"
  "upper ''Weekly'' = ''WEEKLY''" "upper ''Monthly'' = ''MONTHLY''"
  by (simp_all add: upper_def upper_char_def)

lemma default_bars_back_defined:
  assumes "1 \<le> bar_size"
  shows "bar_size < 30 \<Longrightarrow> \<exists>n. default_bars_back ''Minute'' bar_size = Inr n"
    and "\<exists>n. default_bars_back ''Hour'' bar_size = Inr n"
    and "\<exists>n. default_bars_back ''Daily'' bar_size = Inr n"
    and "\<exists>n. default_bars_back ''Weekly'' bar_size = Inr n"
    and "\<exists>n. default_bars_back ''Monthly'' bar_size = Inr n"
  using assms
  by (simp_all add: default_bars_back_def upper_Minute upper_units floordiv_def Let_def)

text \<open>
  Claim C8. The claim says that \<open>default_bars_back\<close> is defined for every supported unit
  and every \<open>bar_size \<ge> 1\<close>. It is for \<open>Hour\<close>, \<open>Daily\<close>, \<open>Weekly\<close>, \<open>Monthly\<close>, and for
  \<open>Minute\<close> below 30 (lemma \<open>default_bars_back_defined\<close>). For \<open>Minute\<close> with a bar size of 30
  or more, which \<open>get_timeframe\<close> accepts, no branch of \<open>default_bars_back\<close> applies and it
  raises the unknown-unit \<open>ValueError\<close>; a request with \<open>bars_back = 0\<close> then fails with it.
  This theorem states what the code does there.
\<close>

theorem default_bars_back_minute_raises:
  assumes "30 \<le> bar_size"
  shows "default_bars_back ''Minute'' bar_size = Inl ValueError_UnknownUnit \<and>
         get_alpaca_bars (Suc depth) e symbol ''Minute'' 0 bar_size indicators truncate_bars
             include_outside_hours = ([], Inl ValueError_UnknownUnit)"
proof -
  have d: "default_bars_back ''Minute'' bar_size = Inl ValueError_UnknownUnit"
    using assms by (simp add: default_bars_back_def upper_Minute)
  have "\<exists>tf. get_timeframe ''Minute'' bar_size = Inr tf"
    by (simp add: get_timeframe_def upper_Minute)
  then obtain tf where tf: "get_timeframe ''Minute'' bar_size = Inr tf" ..
  show ?thesis
    by (simp add: get_alpaca_bars.simps d tf)
qed

theorem default_bars_back_minute_raises_witness:
  "(30::int) \<le> 30 \<and> default_bars_back ''Minute'' 30 = Inl ValueError_UnknownUnit \<and>
   get_alpaca_bars (Suc 0) thin_env ''XYZ'' ''Minute'' 0 30 [] True False =
     ([], Inl ValueError_UnknownUnit)"
proof -
  have h: "(30::int) \<le> 30" by simp
  show ?thesis using h default_bars_back_minute_raises [OF h] by simp
qed

subsection \<open>The outside-hours filter\<close>

lemma time_of_day:
  "t mod 86400 = 3600 * hour t + 60 * minute t + t mod 60"
proof -
  have a: "t mod (3600 * 24) = 3600 * (t div 3600 mod 24) + t mod 3600"
    by (rule mod_mult2_eq)
  have b: "t mod (60 * 60) = 60 * (t div 60 mod 60) + t mod 60"
    by (rule mod_mult2_eq)
  show ?thesis using a b by (simp add: hour_def minute_def)
qed

lemma regular_hours_in_session:
  assumes "regular_hours t" "t mod 60 = 0"
  shows "in_session t"
proof -
  have m: "minute t < 60" by (simp add: minute_def)
  have tod: "t mod 86400 = 3600 * hour t + 60 * minute t"
    using time_of_day [of t] assms(2) by simp
  show ?thesis
    using assms(1) m unfolding regular_hours_def in_session_def tod
    by auto
qed

lemma regular_36000: "regular_hours 36000" "regular_hours 36060" "regular_hours 36120"
  by (simp_all add: regular_hours_def dayofweek_def hour_def minute_def)

lemma iloc_from_subset: "set (iloc_from k xs) \<subseteq> set xs"
  by (auto simp: iloc_from_def dest: in_set_dropD)

lemma int_times_3_7_le: "0 \<le> b \<Longrightarrow> int_times_3_7 b \<le> b * 4"
  by (simp add: int_times_3_7_def)

lemma one_pass:
  assumes u: "upper unit = ''MINUTE'' \<or> upper unit = ''HOUR''"
    and r: "snd (get_alpaca_bars (Suc depth) e symbol unit bars_back bar_size indicators truncate_bars False) = Inr rows"
  shows "(\<exists>req raw. get_stock_bars e req = Inr raw \<and>
            set rows \<subseteq> {b \<in> set raw. regular_hours (timestamp b)}) \<or>
         (\<exists>bars_back'. snd (get_alpaca_bars depth e symbol unit bars_back' bar_size indicators truncate_bars False) = Inr rows)"
proof -
  have sub: "\<And>k P (xs :: Bar list) rows. iloc_from k (filter P xs) = rows \<Longrightarrow>
               set rows \<subseteq> {x \<in> set xs. P x}"
    using iloc_from_subset by fastforce
  have flt: "\<And>P (xs :: Bar list) rows. filter P xs = rows \<Longrightarrow> set rows \<subseteq> {x \<in> set xs. P x}"
    by auto
  show ?thesis
    using r u
    apply (simp add: get_alpaca_bars.simps Let_def case_prod_beta del: set_filter
        split: sum.splits if_splits)
    apply ((rule disjI2, rule exI, assumption)
         | (rule disjI1, rule exI, rule exI, rule conjI, assumption, (erule sub | erule flt)))+
    done
qed

text \<open>
  Claim C7. With \<open>include_outside_hours = False\<close> and unit Minute (or Hour), every row of
  the table \<open>get_alpaca_bars\<close> returns lies on a weekday between 09:30 and 16:00, both ends
  included, whether the table comes from the first pass or from a retry. The filter
  reads the hour and the minute of a timestamp only; the hypothesis on the upstream data
  is that bars are stamped on whole minutes, as minute and hour bars are.
\<close>

theorem returned_rows_in_session:
  assumes up: "\<forall>req rows. get_stock_bars e req = Inr rows \<longrightarrow> (\<forall>b\<in>set rows. timestamp b mod 60 = 0)"
    and u: "upper unit = ''MINUTE'' \<or> upper unit = ''HOUR''"
    and r: "snd (get_alpaca_bars depth e symbol unit bars_back bar_size indicators truncate_bars False) = Inr rows"
  shows "\<forall>b\<in>set rows. in_session (timestamp b)"
  using r
proof (induction depth arbitrary: bars_back)
  case 0
  then show ?case by (simp add: get_alpaca_bars.simps)
next
  case (Suc depth)
  from one_pass [OF u Suc.prems]
  show ?case
  proof (elim disjE exE conjE)
    fix req raw
    assume f: "get_stock_bars e req = Inr raw"
      and s: "set rows \<subseteq> {b \<in> set raw. regular_hours (timestamp b)}"
    show ?thesis
    proof
      fix b assume "b \<in> set rows"
      then have "b \<in> set raw" "regular_hours (timestamp b)" using s by auto
      moreover have "timestamp b mod 60 = 0" using up f \<open>b \<in> set raw\<close> by blast
      ultimately show "in_session (timestamp b)" by (intro regular_hours_in_session)
    qed
  next
    fix bars_back'
    assume "snd (get_alpaca_bars depth e symbol unit bars_back' bar_size indicators truncate_bars False) = Inr rows"
    then show ?thesis by (rule Suc.IH)
  qed
qed

theorem returned_rows_in_session_witness:
  "snd (get_alpaca_bars (Suc 0) mixed_env ''XYZ'' ''Minute'' 2 1 [] True False) =
     Inr [\<lparr>timestamp = 34200, close = 10\<rparr>, \<lparr>timestamp = 57600, close = 11\<rparr>] \<and>
   in_session 34200 \<and> in_session 57600"
proof -
  have up: "\<forall>req rows. get_stock_bars mixed_env req = Inr rows \<longrightarrow> (\<forall>b\<in>set rows. timestamp b mod 60 = 0)"
    by (auto simp: mixed_env_def mixed_bars_def)
  have u: "upper ''Minute'' = ''MINUTE'' \<or> upper ''Minute'' = ''HOUR''"
    by (simp add: upper_Minute)
  have tf: "get_timeframe ''Minute'' 1 = Inr \<lparr>tf_amount = 1, tf_unit = Minute\<rparr>"
    by (simp add: get_timeframe_def upper_Minute)
  have flt: "filter (\<lambda>b. regular_hours (timestamp b)) mixed_bars =
               [\<lparr>timestamp = 34200, close = 10\<rparr>, \<lparr>timestamp = 57600, close = 11\<rparr>]"
    by (simp add: mixed_bars_def regular_hours_def dayofweek_def hour_def minute_def)
  have fetch: "get_stock_bars mixed_env = (\<lambda>_. Inr mixed_bars)"
    by (simp add: mixed_env_def)
  have r: "snd (get_alpaca_bars (Suc 0) mixed_env ''XYZ'' ''Minute'' 2 1 [] True False) =
     Inr [\<lparr>timestamp = 34200, close = 10\<rparr>, \<lparr>timestamp = 57600, close = 11\<rparr>]"
    by (simp add: get_alpaca_bars.simps tf upper_Minute bars_back_to_datetime.simps fetch flt
        Let_def int_times_3_7_def iloc_from_def)
  show ?thesis
    using r returned_rows_in_session [OF up u r] by simp
qed

subsection \<open>The under-fill retry\<close>

text \<open>
  The test that is meant to tell the first pass from the retry,
  \<open>adjusted_bars_back \<le> bars_back * 4\<close>, compares two values of the same call, and holds in
  every call with a non-negative count: the branch that logs the warning and returns the
  rows is never taken.
\<close>

lemma max_min_bars_back_nonneg:
  assumes "\<forall>i. 0 \<le> indicator_min_bars_back e i"
  shows "0 \<le> max_min_bars_back e indicators"
proof -
  have "\<And>m ms. 0 \<le> m \<Longrightarrow> 0 \<le> fold max ms (m :: int)"
  proof -
    fix m :: int and ms
    show "0 \<le> m \<Longrightarrow> 0 \<le> fold max ms m"
      by (induction ms arbitrary: m) auto
  qed
  then show ?thesis
    using assms by (auto simp: max_min_bars_back_def split: list.splits)
qed

lemma warning_unreachable:
  assumes nn: "\<forall>i. 0 \<le> indicator_min_bars_back e i"
  shows "0 \<le> bars_back \<Longrightarrow>
         Warning_could_not_get \<notin> set (fst (get_alpaca_bars depth e symbol unit bars_back bar_size
            indicators truncate_bars include_outside_hours))"
proof (induction depth arbitrary: bars_back indicators include_outside_hours)
  case 0
  then show ?case by (simp add: get_alpaca_bars.simps)
next
  case (Suc depth)
  have mm: "\<And>ind. 0 \<le> max_min_bars_back e ind"
    by (rule max_min_bars_back_nonneg [OF nn])
  have le1: "\<And>b. 0 < b \<Longrightarrow> int_times_3_7 b \<le> b * 4"
    by (rule int_times_3_7_le) simp
  have le2: "\<And>m b. 0 \<le> m \<Longrightarrow> 0 \<le> b \<Longrightarrow> int_times_3_7 (m + b) \<le> m * 4 + b * 4"
  proof -
    fix m b :: int
    assume "0 \<le> m" "0 \<le> b"
    then show "int_times_3_7 (m + b) \<le> m * 4 + b * 4"
      using int_times_3_7_le [of "m + b"] by (simp add: algebra_simps)
  qed
  have ih: "\<And>b ind inc. 0 < b \<Longrightarrow> Warning_could_not_get \<notin> set (fst (get_alpaca_bars depth e symbol unit
            (b * 10) bar_size ind truncate_bars inc))"
    by (rule Suc.IH) simp
  have pos: "\<And>(n :: nat) (b :: int). int n < b \<Longrightarrow> 0 < b"
    by simp
  show ?case
    using Suc.prems mm [of indicators] mm [of "[]"]
    by (auto simp: get_alpaca_bars.simps Let_def case_prod_beta ih le1 le2 pos int_times_3_7_le
        split: sum.splits)
qed

lemma thin_retry:
  assumes "4 \<le> b"
  shows "get_alpaca_bars (Suc depth) thin_env symbol ''Minute'' b 1 [] tr False =
         (case get_alpaca_bars depth thin_env symbol ''Minute'' (b * 10) 1 [] tr False of
            (trace, r) \<Rightarrow>
              (Fetched \<lparr>symbol_or_symbols = symbol, timeframe = \<lparr>tf_amount = 1, tf_unit = Minute\<rparr>,
                        start = BusinessHour 1 (int_times_3_7 b div 60 + 1 + 10)\<rparr>
               # Info_retrying # trace, r))"
proof -
  have tf: "get_timeframe ''Minute'' 1 = Inr \<lparr>tf_amount = 1, tf_unit = Minute\<rparr>"
    by (simp add: get_timeframe_def upper_Minute)
  have st: "bars_back_to_datetime ''Minute'' 1 (int_times_3_7 b) =
              Inr (BusinessHour 1 (int_times_3_7 b div 60 + 1 + 10))"
    by (simp add: bars_back_to_datetime.simps)
  have le: "int_times_3_7 b \<le> b * 4"
    using assms by (intro int_times_3_7_le) simp
  have flt: "filter (\<lambda>b. regular_hours (timestamp b)) three_bars = three_bars"
    by (simp add: three_bars_def regular_36000)
  have len: "length three_bars = 3" by (simp add: three_bars_def)
  have fetch: "get_stock_bars thin_env = (\<lambda>_. Inr three_bars)"
    by (simp add: thin_env_def)
  show ?thesis
    using assms le
    by (simp add: get_alpaca_bars.simps tf st upper_Minute flt len fetch Let_def)
qed

lemma thin_never_returns:
  "4 \<le> b \<Longrightarrow>
   snd (get_alpaca_bars depth thin_env symbol ''Minute'' b 1 [] tr False) = Inl RecursionError \<and>
   retries (fst (get_alpaca_bars depth thin_env symbol ''Minute'' b 1 [] tr False)) = depth \<and>
   Warning_could_not_get \<notin> set (fst (get_alpaca_bars depth thin_env symbol ''Minute'' b 1 [] tr False))"
proof (induction depth arbitrary: b)
  case 0
  then show ?case by (simp add: retries_def get_alpaca_bars.simps)
next
  case (Suc depth)
  have b10: "4 \<le> b * 10" using Suc.prems by simp
  show ?case
    using Suc.IH [OF b10]
    by (simp add: thin_retry [OF Suc.prems] retries_def case_prod_beta)
qed

text \<open>
  Claim C1. The claim says that an under-filled result is retried exactly once and that an
  under-filled retry returns its rows with a warning. The code retries with ten times
  the count, but the retry is an ordinary call: it compares its rows with its own count,
  ten times the original, and when under-filled it retries again with a hundred times
  the original, and so on. For a symbol with three bars in its history and a request for
  five minute bars, the call never returns: whatever depth of recursion is allowed, it is
  used up by retries, no warning is logged, and the result is the recursion error. This
  theorem states what the code does there.
\<close>

theorem get_alpaca_bars_keeps_retrying:
  "snd (get_alpaca_bars depth thin_env ''XYZ'' ''Minute'' 5 1 [] True False) = Inl RecursionError \<and>
   retries (fst (get_alpaca_bars depth thin_env ''XYZ'' ''Minute'' 5 1 [] True False)) = depth \<and>
   Warning_could_not_get \<notin> set (fst (get_alpaca_bars depth thin_env ''XYZ'' ''Minute'' 5 1 [] True False))"
  by (rule thin_never_returns) simp

theorem get_alpaca_bars_keeps_retrying_witness:
  "retries (fst (get_alpaca_bars 3 thin_env ''XYZ'' ''Minute'' 5 1 [] True False)) = 3 \<and>
   snd (get_alpaca_bars 3 thin_env ''XYZ'' ''Minute'' 5 1 [] True False) = Inl RecursionError"
  using get_alpaca_bars_keeps_retrying [of 3] by simp

end
